theory Spec2Isabelle
  imports Complex_Main
begin

section \<open>Python text and numbers\<close>

text \<open>
  A Python \<open>str\<close> is a sequence of Unicode code points, and \<open>len\<close>, slicing and
  \<open>str.replace\<close> count code points. A code point is a natural number here and a string a
  list of them, so that the rupee sign U+20B9 of the price display is one character.
  \<open>ustr\<close> embeds an ASCII literal.

  Prices are Python floats in the source. They are exact rationals here: the arithmetic
  of the scraper (a product with 100, a quotient by 100, comparisons with constants) is
  modelled without binary rounding, and the non-finite floats have no counterpart.
\<close>

type_synonym uchar = nat
type_synonym ustring = "uchar list"

definition ustr :: "string \<Rightarrow> ustring" where
  "ustr s = map of_char s"

definition rupee :: uchar where
  "rupee = 0x20B9"

text \<open>
  The characters \<open>str.strip()\<close> removes and the class \<open>\s\<close> of a \<open>str\<close> pattern
  matches: those with \<open>str.isspace()\<close>, listed from CPython's table of Unicode white space.
\<close>

definition is_space :: "uchar \<Rightarrow> bool" where
  "is_space c = ((0x09 \<le> c \<and> c \<le> 0x0D) \<or> (0x1C \<le> c \<and> c \<le> 0x20) \<or> c = 0x85 \<or> c = 0xA0
     \<or> c = 0x1680 \<or> (0x2000 \<le> c \<and> c \<le> 0x200A) \<or> c = 0x2028 \<or> c = 0x2029
     \<or> c = 0x202F \<or> c = 0x205F \<or> c = 0x3000)"

text \<open>
  \<open>\d\<close> and the digits \<open>float\<close> reads. Only the ASCII digits are modelled; the decimal
  digits of other scripts, which Python accepts too, are not.
\<close>

definition is_digit :: "uchar \<Rightarrow> bool" where
  "is_digit c = (0x30 \<le> c \<and> c \<le> 0x39)"

definition is_alnum_ascii :: "uchar \<Rightarrow> bool" where
  "is_alnum_ascii c = (is_digit c \<or> (0x41 \<le> c \<and> c \<le> 0x5A) \<or> (0x61 \<le> c \<and> c \<le> 0x7A))"

text \<open>
  \<open>str.lower()\<close>, one character at a time. The case mapping is modelled for U+0000 to
  U+00FF (ASCII and Latin-1); a cased letter beyond U+00FF is left as it is.
\<close>

definition lower_char :: "uchar \<Rightarrow> uchar" where
  "lower_char c =
     (if 0x41 \<le> c \<and> c \<le> 0x5A then c + 0x20
      else if 0xC0 \<le> c \<and> c \<le> 0xDE \<and> c \<noteq> 0xD7 then c + 0x20
      else c)"

definition lower :: "ustring \<Rightarrow> ustring" where
  "lower s = map lower_char s"

definition strip :: "ustring \<Rightarrow> ustring" where
  "strip s = rev (dropWhile is_space (rev (dropWhile is_space s)))"

fun startswith :: "ustring \<Rightarrow> ustring \<Rightarrow> bool" where
  "startswith s [] = True"
| "startswith [] (p # ps) = False"
| "startswith (c # cs) (p # ps) = (c = p \<and> startswith cs ps)"

text \<open>\<open>contains sub s\<close> is Python's \<open>sub in s\<close>.\<close>

fun contains :: "ustring \<Rightarrow> ustring \<Rightarrow> bool" where
  "contains sub [] = (sub = [])"
| "contains sub (c # cs) = (startswith (c # cs) sub \<or> contains sub cs)"

text \<open>\<open>s.replace(c, "")\<close> for a pattern \<open>c\<close> of one character.\<close>

definition remove_char :: "uchar \<Rightarrow> ustring \<Rightarrow> ustring" where
  "remove_char c s = filter (\<lambda>x. x \<noteq> c) s"

subsection \<open>The float of a captured number\<close>

text \<open>
  \<open>float(s)\<close> for the strings a group \<open>([\d.]+)\<close> captures: digits and dots. Python
  reads such a string when it has at most one dot and at least one digit, and raises
  ValueError (\<open>None\<close>) otherwise.
\<close>

definition digits_val :: "ustring \<Rightarrow> nat" where
  "digits_val s = foldl (\<lambda>a c. 10 * a + (c - 0x30)) 0 s"

definition py_float :: "ustring \<Rightarrow> rat option" where
  "py_float s =
     (let ip = takeWhile is_digit s; r = dropWhile is_digit s in
      case r of
        [] \<Rightarrow> (if ip = [] then None else Some (of_nat (digits_val ip)))
      | c # fp \<Rightarrow>
          (if c = 0x2E \<and> list_all is_digit fp \<and> (ip \<noteq> [] \<or> fp \<noteq> [])
           then Some (of_nat (digits_val ip) + of_nat (digits_val fp) / 10 ^ length fp)
           else None))"

section \<open>Regular expressions\<close>

text \<open>
  The fragment of Python's \<open>re\<close> the price patterns are written in, with a backtracking
  matcher in Python's order of preference: a greedy repetition tries the longest run
  first, an alternative its left branch first, an optional part its presence first. The
  patterns repeat single character classes only, so \<open>Star\<close> and \<open>Plus\<close> take a class.
  A matcher state is the text still to read and the groups captured so far; \<open>ms r st\<close>
  lists the states in which \<open>r\<close> can end when started in \<open>st\<close>, the preferred first.
\<close>

datatype rx =
    Eps
  | One "uchar \<Rightarrow> bool"
  | Star "uchar \<Rightarrow> bool"
  | Plus "uchar \<Rightarrow> bool"
  | Cat rx rx
  | Alt rx rx
  | Opt rx
  | Grp nat rx

type_synonym caps = "(nat \<times> ustring) list"
type_synonym mstate = "ustring \<times> caps"

fun star :: "(uchar \<Rightarrow> bool) \<Rightarrow> ustring \<Rightarrow> ustring list" where
  "star P [] = [[]]"
| "star P (c # cs) = (if P c then star P cs @ [c # cs] else [c # cs])"

primrec ms :: "rx \<Rightarrow> mstate \<Rightarrow> mstate list" where
  "ms Eps st = [st]"
| "ms (One P) st =
     (case fst st of [] \<Rightarrow> [] | c # cs \<Rightarrow> if P c then [(cs, snd st)] else [])"
| "ms (Star P) st = map (\<lambda>r. (r, snd st)) (star P (fst st))"
| "ms (Plus P) st =
     (case fst st of [] \<Rightarrow> []
      | c # cs \<Rightarrow> if P c then map (\<lambda>r. (r, snd st)) (star P cs) else [])"
| "ms (Cat a b) st = concat (map (ms b) (ms a st))"
| "ms (Alt a b) st = ms a st @ ms b st"
| "ms (Opt a) st = ms a st @ [st]"
| "ms (Grp i a) st =
     map (\<lambda>q. (fst q, (i, take (length (fst st) - length (fst q)) (fst st)) # snd q)) (ms a st)"

text \<open>
  \<open>re.search\<close>: the first position, from the left, at which the pattern matches, and
  there the preferred match. The result is the captured groups.
\<close>

fun search :: "rx \<Rightarrow> ustring \<Rightarrow> caps option" where
  "search r [] = (case ms r ([], []) of [] \<Rightarrow> None | q # _ \<Rightarrow> Some (snd q))"
| "search r (c # cs) = (case ms r (c # cs, []) of [] \<Rightarrow> search r cs | q # _ \<Rightarrow> Some (snd q))"

text \<open>\<open>m.group(i)\<close> of a group that took part in the match.\<close>

definition grp :: "caps \<Rightarrow> nat \<Rightarrow> ustring" where
  "grp m i = (case map_of m i of None \<Rightarrow> [] | Some s \<Rightarrow> s)"

text \<open>
  A literal character under \<open>re.I\<close> matches both of its cases, and a literal string is
  the sequence of its characters.
\<close>

definition ci :: "uchar \<Rightarrow> uchar \<Rightarrow> bool" where
  "ci p c = (lower_char c = lower_char p)"

fun lit :: "ustring \<Rightarrow> rx" where
  "lit [] = Eps"
| "lit [p] = One (ci p)"
| "lit (p # ps) = Cat (One (ci p)) (lit ps)"

text \<open>The class \<open>[\d.]\<close>.\<close>

definition digit_dot :: "uchar \<Rightarrow> bool" where
  "digit_dot c = (is_digit c \<or> c = 0x2E)"

fun cat :: "rx list \<Rightarrow> rx" where
  "cat [] = Eps"
| "cat [r] = r"
| "cat (r # rs) = Cat r (cat rs)"

fun alt :: "rx list \<Rightarrow> rx" where
  "alt [] = Eps"
| "alt [r] = r"
| "alt (r # rs) = Alt r (alt rs)"

section \<open>The price-range parser\<close>

text \<open>
  The seven patterns of \<open>parse_price_range\<close>, all compiled with \<open>re.I\<close>, in the order in
  which the function tries them.
\<close>

text \<open>\<open>(?:L|Lakh|Lac)\<close>\<close>

definition rx_lakh_unit :: rx where
  "rx_lakh_unit = alt [lit (ustr ''L''), lit (ustr ''Lakh''), lit (ustr ''Lac'')]"

text \<open>\<open>([\d.]+)\s*-\s*([\d.]+)\s*Cr\<close>\<close>

definition rx_cr_range :: rx where
  "rx_cr_range = cat [Grp 1 (Plus digit_dot), Star is_space, lit (ustr ''-''), Star is_space,
     Grp 2 (Plus digit_dot), Star is_space, lit (ustr ''Cr'')]"

text \<open>\<open>([\d.]+)\s*(?:L|Lakh|Lac)\s*-\s*([\d.]+)\s*(?:L|Lakh|Lac)\<close>\<close>

definition rx_lakh_range :: rx where
  "rx_lakh_range = cat [Grp 1 (Plus digit_dot), Star is_space, rx_lakh_unit, Star is_space,
     lit (ustr ''-''), Star is_space, Grp 2 (Plus digit_dot), Star is_space, rx_lakh_unit]"

text \<open>\<open>([\d.]+)\s*(?:L|Lakh|Lac)\s*-\s*([\d.]+)\s*Cr\<close>\<close>

definition rx_lakh_cr_range :: rx where
  "rx_lakh_cr_range = cat [Grp 1 (Plus digit_dot), Star is_space, rx_lakh_unit, Star is_space,
     lit (ustr ''-''), Star is_space, Grp 2 (Plus digit_dot), Star is_space, lit (ustr ''Cr'')]"

text \<open>\<open>([\d.]+)\s*(?:lacs?|lakhs?|lac)\s+onwards?\<close>\<close>

definition rx_lakh_onwards :: rx where
  "rx_lakh_onwards = cat [Grp 1 (Plus digit_dot), Star is_space,
     alt [Cat (lit (ustr ''lac'')) (Opt (lit (ustr ''s''))),
          Cat (lit (ustr ''lakh'')) (Opt (lit (ustr ''s''))),
          lit (ustr ''lac'')],
     Plus is_space, lit (ustr ''onward''), Opt (lit (ustr ''s''))]"

text \<open>\<open>(?:Starting\s+)?(?:R\s*)?([\d.]+)\s*Cr\s*(?:onwards)?\<close>, where \<open>R\<close> stands
  for the rupee sign of the source.\<close>

definition rx_cr_onwards :: rx where
  "rx_cr_onwards = cat [Opt (Cat (lit (ustr ''Starting'')) (Plus is_space)),
     Opt (Cat (lit [rupee]) (Star is_space)),
     Grp 1 (Plus digit_dot), Star is_space, lit (ustr ''Cr''), Star is_space,
     Opt (lit (ustr ''onwards''))]"

text \<open>\<open>([\d.]+)\s*Cr\<close>\<close>

definition rx_single_cr :: rx where
  "rx_single_cr = cat [Grp 1 (Plus digit_dot), Star is_space, lit (ustr ''Cr'')]"

text \<open>\<open>([\d.]+)\s*(?:L|Lakh|Lac)\<close>\<close>

definition rx_single_l :: rx where
  "rx_single_l = cat [Grp 1 (Plus digit_dot), Star is_space, rx_lakh_unit]"

type_synonym price_range = "rat option \<times> rat option"

text \<open>
  Each numbered block of the function is a definition: \<open>Some\<close> of the pair it returns, or
  \<open>None\<close> when control falls through to the next block (no match, a ValueError of
  \<open>float\<close> caught by the block's \<open>except\<close>, or a failed range test).
\<close>

definition price_cr_range :: "ustring \<Rightarrow> price_range option" where
  "price_cr_range raw =
     (case search rx_cr_range raw of
        None \<Rightarrow> None
      | Some m \<Rightarrow>
          (case (py_float (grp m 1), py_float (grp m 2)) of
             (Some low, Some high) \<Rightarrow>
               if low \<le> high \<and> high < 1000 then Some (Some (low * 100), Some (high * 100))
               else None
           | _ \<Rightarrow> None))"

definition price_lakh_range :: "ustring \<Rightarrow> price_range option" where
  "price_lakh_range raw =
     (case search rx_lakh_range raw of
        None \<Rightarrow> None
      | Some m \<Rightarrow>
          (case (py_float (grp m 1), py_float (grp m 2)) of
             (Some low, Some high) \<Rightarrow>
               if low \<le> high \<and> high < 10000 then Some (Some low, Some high) else None
           | _ \<Rightarrow> None))"

definition price_lakh_cr_range :: "ustring \<Rightarrow> price_range option" where
  "price_lakh_cr_range raw =
     (case search rx_lakh_cr_range raw of
        None \<Rightarrow> None
      | Some m \<Rightarrow>
          (case (py_float (grp m 1), py_float (grp m 2)) of
             (Some low, Some y) \<Rightarrow>
               (let high = y * 100 in if low \<le> high then Some (Some low, Some high) else None)
           | _ \<Rightarrow> None))"

definition price_lakh_onwards :: "ustring \<Rightarrow> price_range option" where
  "price_lakh_onwards raw =
     (case search rx_lakh_onwards raw of
        None \<Rightarrow> None
      | Some m \<Rightarrow>
          (case py_float (grp m 1) of
             Some n \<Rightarrow> if n < 10000 then Some (Some n, None) else None
           | None \<Rightarrow> None))"

definition price_cr_onwards :: "ustring \<Rightarrow> price_range option" where
  "price_cr_onwards raw =
     (case search rx_cr_onwards raw of
        None \<Rightarrow> None
      | Some m \<Rightarrow>
          (case py_float (grp m 1) of
             Some x \<Rightarrow> (let n = x * 100 in if n < 10000 then Some (Some n, None) else None)
           | None \<Rightarrow> None))"

text \<open>
  The last block has one \<open>try\<close> around both fallbacks: a ValueError in the first ends the
  function with \<open>(None, None)\<close>, and the crore value is returned with no range test.
\<close>

definition price_single :: "ustring \<Rightarrow> price_range" where
  "price_single raw =
     (case search rx_single_cr raw of
        Some m \<Rightarrow>
          (case py_float (grp m 1) of
             Some x \<Rightarrow> (let n = x * 100 in (Some n, Some n))
           | None \<Rightarrow> (None, None))
      | None \<Rightarrow>
          (case search rx_single_l raw of
             Some m \<Rightarrow>
               (case py_float (grp m 1) of
                  Some n \<Rightarrow> if n < 10000 then (Some n, Some n) else (None, None)
                | None \<Rightarrow> (None, None))
           | None \<Rightarrow> (None, None)))"

definition parse_price_range :: "ustring \<Rightarrow> price_range" where
  "parse_price_range text =
     (if text = [] then (None, None)
      else
        (let raw = strip (remove_char rupee (remove_char 0x2C text)) in
         (case price_cr_range raw of Some p \<Rightarrow> p | None \<Rightarrow>
         (case price_lakh_range raw of Some p \<Rightarrow> p | None \<Rightarrow>
         (case price_lakh_cr_range raw of Some p \<Rightarrow> p | None \<Rightarrow>
         (case price_lakh_onwards raw of Some p \<Rightarrow> p | None \<Rightarrow>
         (case price_cr_onwards raw of Some p \<Rightarrow> p | None \<Rightarrow>
          price_single raw)))))))"

section \<open>The price display\<close>

text \<open>
  The format \<open>:.2f\<close>: the sign, the integer part in decimal, a point and two decimals,
  rounded to the nearest hundredth. Python rounds the binary value of the float; on the
  exact rational a value midway between two hundredths goes to the even one.
\<close>

fun dec :: "nat \<Rightarrow> ustring" where
  "dec n = (if n < 10 then [0x30 + n] else dec (n div 10) @ [0x30 + n mod 10])"

definition round_half_even :: "rat \<Rightarrow> nat" where
  "round_half_even q =
     (let f = nat \<lfloor>q\<rfloor>; d = q - of_int \<lfloor>q\<rfloor> in
      if d < 1 / 2 then f else if 1 / 2 < d then f + 1 else if even f then f else f + 1)"

definition fmt_2f :: "rat \<Rightarrow> ustring" where
  "fmt_2f q =
     (let n = round_half_even (\<bar>q\<bar> * 100) in
      (if q < 0 then ustr ''-'' else []) @ dec (n div 100) @ ustr ''.''
        @ [0x30 + n div 10 mod 10, 0x30 + n mod 10])"

text \<open>
  The two assignments \<open>min_p = max_p\<close> and \<open>max_p = min_p\<close> fill a missing end; after
  them both ends are numbers, so the last case is never taken.
\<close>

definition format_price_display :: "rat option \<Rightarrow> rat option \<Rightarrow> ustring" where
  "format_price_display min_p max_p =
     (if min_p = None \<and> max_p = None then []
      else
        (let lo = (case min_p of None \<Rightarrow> max_p | Some x \<Rightarrow> Some x);
             hi = (case max_p of None \<Rightarrow> lo | Some y \<Rightarrow> Some y)
         in (case (lo, hi) of
               (Some a, Some b) \<Rightarrow>
                 if 100 \<le> b
                 then rupee # ustr '' '' @ fmt_2f (a / 100) @ ustr '' - '' @ fmt_2f (b / 100)
                        @ ustr '' Cr''
                 else rupee # ustr '' '' @ fmt_2f a @ ustr '' - '' @ fmt_2f b @ ustr '' L''
             | _ \<Rightarrow> [])))"

section \<open>The junk filter\<close>

definition JUNK_PROJECT_NAMES :: "ustring list" where
  "JUNK_PROJECT_NAMES = map ustr
     [''new launch projects in bangalore'',
      ''under construction projects in bangalore'',
      ''ready to move projects in bangalore'',
      ''new projects in bangalore'',
      ''projects in bangalore'',
      ''upcoming projects in bangalore'',
      ''new projects by reputed bangalore builders in bangalore'',
      ''ready to move & pre launch'',
      ''list'', ''map'', ''filter your search'', ''reset'', ''sort by'',
      ''find other projects matching your search nearby'',
      ''quick links'',
      ''bangalore'']"

definition is_junk_project_name :: "ustring \<Rightarrow> bool" where
  "is_junk_project_name name =
     (if name = [] \<or> length name < 4 then True
      else
        (let key = take 120 (lower (strip name)) in
         if key \<in> set JUNK_PROJECT_NAMES then True
         else if (contains (ustr ''projects in bangalore'') key
                   \<or> (contains (ustr ''projects in '') key \<and> contains (ustr ''bangalore'') key))
                 \<and> (startswith key (ustr ''new '') \<or> startswith key (ustr ''under '')
                      \<or> startswith key (ustr ''ready '') \<or> startswith key (ustr ''upcoming ''))
              then True
         else if contains (ustr ''by reputed'') key \<and> contains (ustr ''builders'') key
                 \<and> contains (ustr ''bangalore'') key
              then True
         else False))"

section \<open>The verifier\<close>

text \<open>
  \<open>re.sub(pattern, repl, s)\<close> for a pattern that matches no empty string (all patterns of
  the verifier are such): from the left, the preferred match at the first position that
  has one is replaced, and the scan goes on behind it.
\<close>

function re_sub :: "rx \<Rightarrow> ustring \<Rightarrow> ustring \<Rightarrow> ustring" where
  "re_sub r repl [] = []"
| "re_sub r repl (c # cs) =
     (case ms r (c # cs, []) of
        [] \<Rightarrow> c # re_sub r repl cs
      | q # _ \<Rightarrow>
          if length (fst q) \<le> length cs then repl @ re_sub r repl (fst q)
          else c # re_sub r repl cs)"
  by pat_completeness auto
termination
  by (relation "measure (\<lambda>(r, repl, s). length s)") auto

text \<open>\<open>re.sub(r"\s+", " ", s)\<close>\<close>

definition collapse_spaces :: "ustring \<Rightarrow> ustring" where
  "collapse_spaces s = re_sub (Plus is_space) (ustr '' '') s"

definition PROPERTY_JUNK_SUBSTRINGS :: "ustring list" where
  "PROPERTY_JUNK_SUBSTRINGS = map ustr
     [''filter your search'', ''sort by'', ''reset'', ''list'', ''map'', ''quick links'',
      ''find other projects'', ''next >>'', ''<< prev'', ''bangalore, india'',
      ''property list'']"

definition PRICE_MAX_LAKHS :: rat where
  "PRICE_MAX_LAKHS = 50000"

definition PRICE_MIN_LAKHS :: rat where
  "PRICE_MIN_LAKHS = 1 / 10"

definition HANDOVER_YEAR_MIN :: int where
  "HANDOVER_YEAR_MIN = 2020"

definition HANDOVER_YEAR_MAX :: int where
  "HANDOVER_YEAR_MAX = 2040"

text \<open>
  One round of the loop over the junk substrings in \<open>_normalize_str\<close>: a substring found in
  the lower-cased text is cut out, whatever its case, and the white space is collapsed and
  trimmed again.
\<close>

definition strip_junk :: "ustring \<Rightarrow> ustring \<Rightarrow> ustring" where
  "strip_junk t junk =
     (if contains junk (lower t)
      then strip (collapse_spaces (re_sub (lit junk) (ustr '' '') t))
      else t)"

text \<open>The argument is \<open>None\<close> for Python's \<open>None\<close> and for a value that is not a \<open>str\<close>.\<close>

definition normalize_str :: "ustring option \<Rightarrow> nat \<Rightarrow> ustring" where
  "normalize_str s max_len =
     (case s of
        None \<Rightarrow> []
      | Some s \<Rightarrow>
          if s = [] then []
          else
            (let t = collapse_spaces (strip s) in
             if t = [] then []
             else
               (let t = foldl strip_junk t PROPERTY_JUNK_SUBSTRINGS in
                if t = [] then [] else take max_len t)))"

text \<open>
  A scraped record is a \<open>dict\<close> with the thirteen keys below. A text field holds a
  \<open>str\<close> or \<open>None\<close> (a missing key reads as \<open>None\<close> through \<open>dict.get\<close>). The two prices and
  the handover year hold a number, \<open>None\<close>, or a text that the verifier converts. The key
  \<open>id\<close> is the field \<open>pid\<close>.
\<close>

datatype pyval = PNone | PNum rat | PStr ustring

record property =
  pid :: "ustring option"
  source :: "ustring option"
  status :: "ustring option"
  name :: "ustring option"
  builder :: "ustring option"
  locality :: "ustring option"
  price_min_lakhs :: pyval
  price_max_lakhs :: pyval
  price_display :: "ustring option"
  handover :: "ustring option"
  handover_year :: pyval
  bhk :: "ustring option"
  url :: "ustring option"

text \<open>\<open>x or ""\<close> for a text field.\<close>

definition or_empty :: "ustring option \<Rightarrow> ustring" where
  "or_empty x = (case x of None \<Rightarrow> [] | Some s \<Rightarrow> s)"

text \<open>
  The conversion of one price inside the \<open>try\<close>: \<open>None\<close> when \<open>float\<close> raises ValueError,
  else the value of the variable afterwards. \<open>flt\<close> is Python's \<open>float\<close> on a text.
\<close>

definition coerce_price :: "(ustring \<Rightarrow> rat option) \<Rightarrow> pyval \<Rightarrow> rat option option" where
  "coerce_price flt v =
     (case v of
        PNone \<Rightarrow> Some None
      | PNum q \<Rightarrow> Some (Some q)
      | PStr s \<Rightarrow> if s = [] then Some None else map_option Some (flt s))"

definition price_in_bounds :: "rat option \<Rightarrow> rat option" where
  "price_in_bounds p =
     (case p of
        None \<Rightarrow> None
      | Some q \<Rightarrow> if q < PRICE_MIN_LAKHS \<or> PRICE_MAX_LAKHS < q then None else Some q)"

text \<open>\<open>int(x)\<close> of a number rounds towards zero.\<close>

definition py_int :: "rat \<Rightarrow> int" where
  "py_int q = (if 0 \<le> q then \<lfloor>q\<rfloor> else \<lceil>q\<rceil>)"

definition year_in_bounds :: "int \<Rightarrow> int option" where
  "year_in_bounds y = (if y < HANDOVER_YEAR_MIN \<or> HANDOVER_YEAR_MAX < y then None else Some y)"

text \<open>\<open>intp\<close> is Python's \<open>int\<close> on a text, \<open>None\<close> when it raises ValueError.\<close>

definition coerce_year :: "(ustring \<Rightarrow> int option) \<Rightarrow> pyval \<Rightarrow> int option" where
  "coerce_year intp v =
     (case v of
        PNone \<Rightarrow> None
      | PNum q \<Rightarrow> year_in_bounds (py_int q)
      | PStr s \<Rightarrow> (case intp s of None \<Rightarrow> None | Some y \<Rightarrow> year_in_bounds y))"

definition num_out :: "rat option \<Rightarrow> pyval" where
  "num_out p = (case p of None \<Rightarrow> PNone | Some q \<Rightarrow> PNum q)"

text \<open>
  The block on the prices: the two conversions inside one \<open>try\<close> (a ValueError of either
  sets both prices to \<open>None\<close>), the two tests of the bounds, and the swap of an inverted
  pair.
\<close>

definition clean_prices :: "(ustring \<Rightarrow> rat option) \<Rightarrow> pyval \<Rightarrow> pyval \<Rightarrow> rat option \<times> rat option" where
  "clean_prices flt pmin pmax =
     (let pr = (case coerce_price flt pmin of
                  None \<Rightarrow> (None, None)
                | Some a \<Rightarrow>
                    (case coerce_price flt pmax of
                       None \<Rightarrow> (None, None)
                     | Some b \<Rightarrow> (a, b)));
          lo = price_in_bounds (fst pr);
          hi = price_in_bounds (snd pr)
      in (case (lo, hi) of
            (Some a, Some b) \<Rightarrow> if b < a then (Some b, Some a) else (Some a, Some b)
          | other \<Rightarrow> other))"

text \<open>The status: trimmed and lower-cased, and \<open>new_launch\<close> unless it is one of the three.\<close>

definition clean_status :: "ustring option \<Rightarrow> ustring" where
  "clean_status s =
     (let st = lower (strip (or_empty s)) in
      if st \<in> set (map ustr [''new_launch'', ''under_construction'', ''ready_to_move''])
      then st else ustr ''new_launch'')"

definition clean_source :: "ustring option \<Rightarrow> ustring" where
  "clean_source s = (let t = strip (or_empty s) in if t = [] then ustr ''99acres'' else t)"

text \<open>
  The id: the trimmed id of the record, or when that is empty the last 14 characters of
  \<open>re.sub(r"[^a-zA-Z0-9]", "", url)\<close>.
\<close>

definition clean_id :: "ustring option \<Rightarrow> ustring \<Rightarrow> ustring" where
  "clean_id i u =
     (let t = strip (or_empty i) in
      if t = [] then
        (let a = re_sub (One (\<lambda>c. \<not> is_alnum_ascii c)) [] u in drop (length a - 14) a)
      else t)"

text \<open>
  \<open>verify_and_clean_property\<close> returns \<open>None\<close> in two places; the result says which:
  \<open>Inl Bad_url\<close> for the test of the url, \<open>Inl Bad_name\<close> for the test of the name, and
  \<open>Inr\<close> the cleaned record. (The first test of the function, on a record that is empty
  or no \<open>dict\<close>, is the case of a record whose fields are all \<open>None\<close>: it fails the test of
  the url.)
\<close>

datatype reject = Bad_url | Bad_name

definition verify_and_clean_property ::
  "(ustring \<Rightarrow> rat option) \<Rightarrow> (ustring \<Rightarrow> int option) \<Rightarrow> property \<Rightarrow> reject + property" where
  "verify_and_clean_property flt intp record =
     (let u = strip (or_empty (url record)) in
      if u = [] \<or> \<not> contains (ustr ''http'') u then Inl Bad_url
      else
        (let nm = normalize_str (name record) 200 in
         if nm = [] \<or> is_junk_project_name nm then Inl Bad_name
         else
           (let bld = normalize_str (builder record) 100;
                loc = normalize_str (locality record) 150;
                hov = normalize_str (handover record) 50;
                bh = normalize_str (bhk record) 30;
                disp = normalize_str (price_display record) 80;
                pr = clean_prices flt (price_min_lakhs record) (price_max_lakhs record);
                disp = (if fst pr \<noteq> None \<or> snd pr \<noteq> None
                        then format_price_display (fst pr) (snd pr) else disp);
                hy = coerce_year intp (handover_year record)
            in Inr \<lparr> pid = Some (clean_id (pid record) u),
                      source = Some (clean_source (source record)),
                      status = Some (clean_status (status record)),
                      name = Some nm, builder = Some bld, locality = Some loc,
                      price_min_lakhs = num_out (fst pr), price_max_lakhs = num_out (snd pr),
                      price_display = Some disp, handover = Some hov,
                      handover_year = num_out (map_option of_int hy), bhk = Some bh,
                      url = Some u \<rparr>)))"

section \<open>The end of \<open>run_scraper\<close>: deduplicate, drop junk, verify\<close>

text \<open>
  The loop that deduplicates by url: \<open>seen\<close> is the set \<open>seen_urls\<close>, \<open>unique\<close> the list
  built so far.
\<close>

fun dedup_loop :: "ustring option set \<Rightarrow> property list \<Rightarrow> property list \<Rightarrow> property list" where
  "dedup_loop seen unique [] = unique"
| "dedup_loop seen unique (p # ps) =
     (if url p \<notin> seen then dedup_loop (insert (url p) seen) (unique @ [p]) ps
      else dedup_loop seen unique ps)"

definition dedup_by_url :: "property list \<Rightarrow> property list" where
  "dedup_by_url all_properties = dedup_loop {} [] all_properties"

definition drop_junk :: "property list \<Rightarrow> property list" where
  "drop_junk unique = filter (\<lambda>p. \<not> is_junk_project_name (strip (or_empty (name p)))) unique"

definition verify_all ::
  "(ustring \<Rightarrow> rat option) \<Rightarrow> (ustring \<Rightarrow> int option) \<Rightarrow> property list \<Rightarrow> property list" where
  "verify_all flt intp unique =
     concat (map (\<lambda>p. case verify_and_clean_property flt intp p of
                          Inl _ \<Rightarrow> [] | Inr q \<Rightarrow> [q]) unique)"

text \<open>
  \<open>run_scraper\<close> from the deduplication on, applied to the list \<open>all_properties\<close> that the
  fetch loops have filled. Without enrichment (the default) this is the list it returns.
\<close>

definition run_scraper :: "(ustring \<Rightarrow> rat option) \<Rightarrow> (ustring \<Rightarrow> int option) \<Rightarrow> property list \<Rightarrow> property list" where
  "run_scraper flt intp all_properties = verify_all flt intp (drop_junk (dedup_by_url all_properties))"

section \<open>Example records\<close>

definition rec_a :: property where
  "rec_a = \<lparr> pid = Some (ustr ''r439895''), source = Some (ustr ''99acres''),
     status = Some (ustr ''new_launch''), name = Some (ustr ''Prestige Suncrest''),
     builder = Some (ustr ''Prestige''), locality = Some (ustr ''Electronic City''),
     price_min_lakhs = PNum 71, price_max_lakhs = PNum 211,
     price_display = Some (rupee # ustr '' 0.71 - 2.11 Cr''), handover = Some (ustr ''Sep 2028''),
     handover_year = PNum 2028, bhk = Some (ustr ''1, 2, 3''),
     url = Some (ustr ''https://www.99acres.com/prestige-suncrest-npxid-r439895'') \<rparr>"

section \<open>Evaluation\<close>

lemmas chr_defs = ustr_def rupee_def is_space_def is_digit_def is_alnum_ascii_def lower_char_def
  lower_def strip_def remove_char_def digit_dot_def ci_def

lemmas rx_defs = rx_lakh_unit_def rx_cr_range_def rx_lakh_range_def rx_lakh_cr_range_def
  rx_lakh_onwards_def rx_cr_onwards_def rx_single_cr_def rx_single_l_def

lemmas price_defs = price_cr_range_def price_lakh_range_def price_lakh_cr_range_def
  price_lakh_onwards_def price_cr_onwards_def price_single_def parse_price_range_def
  py_float_def digits_val_def grp_def

lemmas fmt_defs = format_price_display_def fmt_2f_def round_half_even_def

section \<open>The price display of a pair with one end missing\<close>

text \<open>
  C10. When exactly one of the two prices is \<open>None\<close>, \<open>_format_price_display\<close> puts the
  other value in its place: the display is that of the degenerate range from the value to
  itself, in crore when the value is at least 100 and in lakh otherwise. The display is
  the empty string exactly when both prices are \<open>None\<close>.
\<close>

theorem format_price_display_one_sided:
  "format_price_display (Some x) None = format_price_display (Some x) (Some x)
   \<and> format_price_display None (Some x) = format_price_display (Some x) (Some x)
   \<and> format_price_display (Some x) (Some x) =
       (if 100 \<le> x
        then rupee # ustr '' '' @ fmt_2f (x / 100) @ ustr '' - '' @ fmt_2f (x / 100) @ ustr '' Cr''
        else rupee # ustr '' '' @ fmt_2f x @ ustr '' - '' @ fmt_2f x @ ustr '' L'')
   \<and> (format_price_display min_p max_p = []) = (min_p = None \<and> max_p = None)"
  by (cases min_p; cases max_p) (simp_all add: format_price_display_def)

theorem format_price_display_one_sided_witness:
  "format_price_display (Some 45) None = rupee # ustr '' 45.00 - 45.00 L''
   \<and> format_price_display None (Some 150) = rupee # ustr '' 1.50 - 1.50 Cr''
   \<and> format_price_display None None = []"
  using format_price_display_one_sided [of 45 None None]
    format_price_display_one_sided [of 150 None None]
  by (simp add: fmt_2f_def round_half_even_def ustr_def)

section \<open>A bare crore value out of bounds\<close>

text \<open>
  C2. On the text \<open>99999 Cr\<close> the block for a starting crore price finds 9999900 lakhs,
  which fails its test \<open>n < 10000\<close>, and gives no result; the fallback for a single crore
  value then returns the same value as both ends, with no test of its range.
\<close>

theorem single_cr_unchecked:
  "price_cr_onwards (ustr ''99999 Cr'') = None
   \<and> parse_price_range (ustr ''99999 Cr'') = (Some 9999900, Some 9999900)"
  by (simp add: chr_defs rx_defs price_defs)

section \<open>Deduplication by url\<close>

lemma dedup_loop_acc: "dedup_loop seen unique ps = unique @ dedup_loop seen [] ps"
proof (induction ps arbitrary: seen unique)
  case Nil
  show ?case by simp
next
  case (Cons p ps)
  from Cons [of "insert (url p) seen" "unique @ [p]"] Cons [of "insert (url p) seen" "[p]"]
    Cons [of seen unique]
  show ?case by simp
qed

lemma dedup_loop_step:
  "dedup_loop seen [] (p # ps) =
     (if url p \<in> seen then dedup_loop seen [] ps else p # dedup_loop (insert (url p) seen) [] ps)"
  using dedup_loop_acc [of "insert (url p) seen" "[p]" ps] by simp

lemma dedup_loop_urls: "set (map url (dedup_loop seen [] ps)) = set (map url ps) - seen"
proof (induction ps arbitrary: seen)
  case Nil
  show ?case by simp
next
  case (Cons p ps)
  show ?case unfolding dedup_loop_step using Cons [of seen] Cons [of "insert (url p) seen"]
    by auto
qed

lemma dedup_loop_distinct: "distinct (map url (dedup_loop seen [] ps))"
proof (induction ps arbitrary: seen)
  case Nil
  show ?case by simp
next
  case (Cons p ps)
  show ?case unfolding dedup_loop_step
    using Cons [of seen] Cons [of "insert (url p) seen"] dedup_loop_urls [of "insert (url p) seen" ps]
    by auto
qed

lemma dedup_loop_first:
  "q \<in> set (dedup_loop seen [] ps) \<Longrightarrow> find (\<lambda>p. url p = url q) ps = Some q"
proof (induction ps arbitrary: seen)
  case Nil
  then show ?case by simp
next
  case (Cons p ps)
  show ?case
  proof (cases "url p \<in> seen")
    case True
    from Cons.prems have q: "q \<in> set (dedup_loop seen [] ps)"
      unfolding dedup_loop_step using True by simp
    then have "url q \<in> set (map url (dedup_loop seen [] ps))" by simp
    then have "url q \<notin> seen" unfolding dedup_loop_urls by simp
    with True have "url p \<noteq> url q" by auto
    with Cons.IH [OF q] show ?thesis by simp
  next
    case False
    from Cons.prems have "q \<in> set (p # dedup_loop (insert (url p) seen) [] ps)"
      unfolding dedup_loop_step using False by simp
    then have "q = p \<or> q \<in> set (dedup_loop (insert (url p) seen) [] ps)"
      by simp
    then show ?thesis
    proof
      assume "q = p"
      then show ?thesis by simp
    next
      assume q: "q \<in> set (dedup_loop (insert (url p) seen) [] ps)"
      then have "url q \<in> set (map url (dedup_loop (insert (url p) seen) [] ps))" by simp
      then have "url p \<noteq> url q" unfolding dedup_loop_urls by auto
      with Cons.IH [OF q] show ?thesis by simp
    qed
  qed
qed

text \<open>
  C5. Whatever the list of records, the deduplication keeps exactly one record for each
  url of the list: the urls of the result are pairwise distinct and are the urls of the
  input. Each record it keeps is the first record of the input with that url, as it
  stands there: no field comes from a later duplicate.
\<close>

theorem dedup_keeps_first:
  "distinct (map url (dedup_by_url ps))
   \<and> set (map url (dedup_by_url ps)) = set (map url ps)
   \<and> (\<forall>q \<in> set (dedup_by_url ps). find (\<lambda>p. url p = url q) ps = Some q)"
  unfolding dedup_by_url_def
  using dedup_loop_distinct [of "{}" ps] dedup_loop_urls [of "{}" ps] dedup_loop_first [of _ "{}" ps]
  by simp

theorem dedup_keeps_first_witness:
  "dedup_by_url [rec_a, rec_a \<lparr> name := Some (ustr ''Suncrest Phase 2''), price_min_lakhs := PNone \<rparr>]
     = [rec_a]
   \<and> find (\<lambda>p. url p = url rec_a)
         [rec_a, rec_a \<lparr> name := Some (ustr ''Suncrest Phase 2''), price_min_lakhs := PNone \<rparr>]
       = Some rec_a"
  using dedup_keeps_first
    [of "[rec_a, rec_a \<lparr> name := Some (ustr ''Suncrest Phase 2''), price_min_lakhs := PNone \<rparr>]"]
  by (simp add: dedup_by_url_def)

end
